theory Spec2Isabelle
  imports Main
begin

section \<open>Enumerations and constants used by user_settings.py\<close>

text \<open>
  The module imports its enumerations from \<^verbatim>\<open>..enums\<close> and two tables from
  \<^verbatim>\<open>..constants\<close>. The members that \<^verbatim>\<open>user_settings.py\<close> names are taken from it:
  \<^verbatim>\<open>DisplayUserSettingsEnum\<close>, \<^verbatim>\<open>NetshieldTranslationEnum\<close>,
  \<^verbatim>\<open>UserSettingStatusEnum.ENABLED/CUSTOM\<close>, \<^verbatim>\<open>ServerTierEnum.FREE\<close>,
  \<^verbatim>\<open>ProtocolImplementationEnum.OPENVPN\<close>.
\<close>

datatype DisplayUserSettingsEnum = PROTOCOL | KILLSWITCH | DNS | CUSTOM_DNS | NETSHIELD

datatype NetshieldTranslationEnum = MALWARE | ADS_MALWARE | DISABLED

datatype UserSettingStatusEnum = ENABLED | CUSTOM

text \<open>
  Modelled from the spec: the members of \<^verbatim>\<open>ServerTierEnum\<close> other than \<^verbatim>\<open>FREE\<close> are
  declared in enums.py. The spec describes the tier as an ordinal value (Free, Plus, ...);
  \<open>PAID n\<close> stands for the n-th tier above Free.
\<close>

datatype ServerTierEnum = FREE | PAID nat

text \<open>
  Modelled from the spec: the members of \<^verbatim>\<open>ProtocolEnum\<close> and their \<^verbatim>\<open>.value\<close> are
  declared in enums.py. The spec names OpenVPN-UDP, OpenVPN-TCP and WireGuard, the first two
  tagged with the OpenVPN implementation family, and fixes the display strings
  \<^verbatim>\<open>OpenVPN (UDP)\<close>, \<^verbatim>\<open>OpenVPN (TCP)\<close> and \<^verbatim>\<open>WIREGUARD\<close>.
\<close>

datatype ProtocolEnum = TCP | UDP | WIREGUARD

fun protocol_value :: "ProtocolEnum \<Rightarrow> string" where
  "protocol_value TCP = ''tcp''"
| "protocol_value UDP = ''udp''"
| "protocol_value WIREGUARD = ''wireguard''"

datatype ProtocolImplementationEnum = OPENVPN | WIREGUARD_IMPL

text \<open>
  Modelled from the spec: \<^verbatim>\<open>SUPPORTED_PROTOCOLS\<close> is declared in constants.py; it maps an
  implementation family to the protocols that belong to it.
\<close>

fun SUPPORTED_PROTOCOLS :: "ProtocolImplementationEnum \<Rightarrow> ProtocolEnum list" where
  "SUPPORTED_PROTOCOLS OPENVPN = [TCP, UDP]"
| "SUPPORTED_PROTOCOLS WIREGUARD_IMPL = [WIREGUARD]"

text \<open>
  Modelled from the spec: the members of \<^verbatim>\<open>KillswitchStatusEnum\<close> are declared in
  enums.py; the spec lists the modes Off, On and On-permanent.
\<close>

datatype KillswitchStatusEnum = KILLSWITCH_OFF | KILLSWITCH_ON | KILLSWITCH_PERMANENT

section \<open>Exceptions\<close>

text \<open>
  What a collaborator call can raise, classified the way the \<^verbatim>\<open>except\<close> clauses of the
  module tell exceptions apart; the string is \<^verbatim>\<open>str(e)\<close>.
\<close>

datatype collab_error =
    DisableConnectivityCheckError string
  | ProtonVPNException string
  | OtherException string

fun str_of :: "collab_error \<Rightarrow> string" where
  "str_of (DisableConnectivityCheckError m) = m"
| "str_of (ProtonVPNException m) = m"
| "str_of (OtherException m) = m"

section \<open>Collaborators\<close>

text \<open>The state-changing calls the facade makes on its collaborators, in call order.\<close>

datatype call =
    UPDATE_NETSHIELD "NetshieldTranslationEnum option"
  | UPDATE_FROM_USER_CONFIGURATION_MENU KillswitchStatusEnum
  | UPDATE_KILLSWITCH KillswitchStatusEnum
  | UPDATE_DEFAULT_PROTOCOL ProtocolEnum
  | UPDATE_DNS UserSettingStatusEnum "string list"

text \<open>
  Modelled from the spec: the class of \<^verbatim>\<open>user_conf_manager\<close> (ConfigStore) is not among
  the sources. By its contract \<^verbatim>\<open>get()\<close> returns the persisted protocol, kill switch
  mode, DNS mode, custom DNS servers and NetShield level, and \<^verbatim>\<open>update(field, value)\<close>
  persists the value or fails with an error. The record holds the persisted values.
\<close>

record user_conf_manager =
  default_protocol :: ProtocolEnum
  killswitch :: KillswitchStatusEnum
  conf_dns_status :: UserSettingStatusEnum
  conf_custom_dns :: "string list"
  netshield :: "NetshieldTranslationEnum option"

type_synonym ref = nat

text \<open>
  The world the facade runs in: the persisted configuration, \<^verbatim>\<open>user_manager.tier\<close>, the
  list objects reachable through references (Python passes lists by reference), and the
  trace of collaborator calls made so far.
\<close>

record world =
  conf :: user_conf_manager
  tier :: ServerTierEnum
  lists :: "ref \<Rightarrow> string list"
  calls :: "call list"

text \<open>
  What the sources do not contain, taken as parameters:
  \<^item> \<open>enum_bool\<close>: the truth value Python gives a member of \<^verbatim>\<open>NetshieldTranslationEnum\<close>
    (every member of a plain \<^verbatim>\<open>Enum\<close> class is true; a member of an int-mixed class with
    value 0 is false);
  \<^item> \<open>KILLSWITCH_STATUS_TEXT\<close>: the table of constants.py;
  \<^item> \<open>valid_ip\<close>: the answer of \<^verbatim>\<open>user_conf_manager.is_valid_ip\<close>;
  \<^item> \<open>raises\<close>: whether a collaborator call fails, and with which exception.
\<close>

record environment =
  enum_bool :: "NetshieldTranslationEnum \<Rightarrow> bool"
  KILLSWITCH_STATUS_TEXT :: "KillswitchStatusEnum \<Rightarrow> string option"
  valid_ip :: "string \<Rightarrow> bool"
  raises :: "call \<Rightarrow> collab_error option"

text \<open>
  Modelled from the spec: a collaborator call is recorded in the trace; it either raises
  and leaves the persisted configuration as it was, or applies its effect.
\<close>

definition collaborator_call ::
  "environment \<Rightarrow> call \<Rightarrow> (user_conf_manager \<Rightarrow> user_conf_manager) \<Rightarrow> world
     \<Rightarrow> (collab_error + unit) \<times> world" where
  "collaborator_call env c effect w =
     (case raises env c of
        Some e \<Rightarrow> (Inl e, w\<lparr>calls := calls w @ [c]\<rparr>)
      | None \<Rightarrow> (Inr (), w\<lparr>conf := effect (conf w), calls := calls w @ [c]\<rparr>))"

definition update_netshield ::
  "environment \<Rightarrow> NetshieldTranslationEnum option \<Rightarrow> world \<Rightarrow> (collab_error + unit) \<times> world" where
  "update_netshield env v = collaborator_call env (UPDATE_NETSHIELD v) (\<lambda>c. c\<lparr>netshield := v\<rparr>)"

text \<open>
  \<^verbatim>\<open>ks_manager.update_from_user_configuration_menu\<close> reconfigures the kill switch of the
  operating system; it does not write the persisted configuration.
\<close>

definition update_from_user_configuration_menu ::
  "environment \<Rightarrow> KillswitchStatusEnum \<Rightarrow> world \<Rightarrow> (collab_error + unit) \<times> world" where
  "update_from_user_configuration_menu env k =
     collaborator_call env (UPDATE_FROM_USER_CONFIGURATION_MENU k) (\<lambda>c. c)"

definition update_killswitch ::
  "environment \<Rightarrow> KillswitchStatusEnum \<Rightarrow> world \<Rightarrow> (collab_error + unit) \<times> world" where
  "update_killswitch env k = collaborator_call env (UPDATE_KILLSWITCH k) (\<lambda>c. c\<lparr>killswitch := k\<rparr>)"

definition update_default_protocol ::
  "environment \<Rightarrow> ProtocolEnum \<Rightarrow> world \<Rightarrow> (collab_error + unit) \<times> world" where
  "update_default_protocol env p =
     collaborator_call env (UPDATE_DEFAULT_PROTOCOL p) (\<lambda>c. c\<lparr>default_protocol := p\<rparr>)"

text \<open>
  \<^verbatim>\<open>update_dns\<close> receives the list by reference and persists its contents at the time
  of the call.
\<close>

definition update_dns ::
  "environment \<Rightarrow> UserSettingStatusEnum \<Rightarrow> ref \<Rightarrow> world \<Rightarrow> (collab_error + unit) \<times> world" where
  "update_dns env s r w =
     collaborator_call env (UPDATE_DNS s (lists w r))
       (\<lambda>c. c\<lparr>conf_dns_status := s, conf_custom_dns := lists w r\<rparr>) w"

section \<open>The facade: ProtonVPNUserSetting\<close>

text \<open>Exceptions that leave a method of the facade.\<close>

datatype error =
    Exception string
  | KeyError
  | Propagated collab_error

type_synonym 'a outcome = "(error + 'a) \<times> world"

definition propagate :: "(collab_error + 'a) \<times> world \<Rightarrow> 'a outcome" where
  "propagate r = (case r of (Inl e, w) \<Rightarrow> (Inl (Propagated e), w) | (Inr x, w) \<Rightarrow> (Inr x, w))"

text \<open>Python's truth value of the argument of \<^verbatim>\<open>_set_netshield\<close>; \<open>None\<close> is Python's None.\<close>

fun truthy :: "environment \<Rightarrow> NetshieldTranslationEnum option \<Rightarrow> bool" where
  "truthy env None = False"
| "truthy env (Some m) = enum_bool env m"

definition upgrade_prompt :: string where
  "upgrade_prompt =
     CHR 0x0A # ''Browse the Internet free of malware, ads, and trackers with NetShield.''
     @ CHR 0x0A # ''To use NetShield, upgrade your subscription at: ''
     @ ''https://account.protonvpn.com/dashboard''"

definition get_netshield :: "world \<Rightarrow> NetshieldTranslationEnum option" where
  "get_netshield w = netshield (conf w)"

definition set_netshield ::
  "environment \<Rightarrow> NetshieldTranslationEnum option \<Rightarrow> world \<Rightarrow> unit outcome" where
  "set_netshield env netshield_enum w =
     (if \<not> truthy env netshield_enum \<and> tier w = FREE
      then (Inl (Exception upgrade_prompt), w)
      else propagate (update_netshield env netshield_enum w))"

subsection \<open>Kill switch\<close>

definition connectivity_check_message :: string where
  "connectivity_check_message =
     CHR 0x0A # ''Unable to set kill switch setting: ''
     @ ''Connectivity check could not be disabled.''
     @ CHR 0x0A # ''Please disable connectivity check manually to be able to use ''
     @ ''the killswitch feature.''"

definition get_killswitch :: "world \<Rightarrow> KillswitchStatusEnum" where
  "get_killswitch w = killswitch (conf w)"

text \<open>
  \<^verbatim>\<open>try / except DisableConnectivityCheckError / except (ProtonVPNException, Exception)
  / else\<close>: the \<^verbatim>\<open>else\<close> block runs only when the controller call returned, and an
  exception raised in it is not caught by the clauses above it.
\<close>

definition set_killswitch :: "environment \<Rightarrow> KillswitchStatusEnum \<Rightarrow> world \<Rightarrow> unit outcome" where
  "set_killswitch env killswitch_enum w =
     (case update_from_user_configuration_menu env killswitch_enum w of
        (Inl (DisableConnectivityCheckError m), w') \<Rightarrow>
          (Inl (Exception connectivity_check_message), w')
      | (Inl e, w') \<Rightarrow> (Inl (Exception (str_of e)), w')
      | (Inr u, w') \<Rightarrow> propagate (update_killswitch env killswitch_enum w'))"

subsection \<open>Protocol\<close>

text \<open>
  The arguments that the module tests with \<^verbatim>\<open>isinstance\<close> are Python values of any
  type.
\<close>

datatype pyval =
    PyNone
  | PyStr string
  | PyInt int
  | PyProtocol ProtocolEnum
  | PyDnsStatus UserSettingStatusEnum
  | PyNetshield NetshieldTranslationEnum
  | PyKillswitch KillswitchStatusEnum

fun decimal_digits :: "nat \<Rightarrow> string" where
  "decimal_digits n =
     (if n < 10 then [char_of (48 + n)]
      else decimal_digits (n div 10) @ [char_of (48 + n mod 10)])"

declare decimal_digits.simps [simp del]

text \<open>\<^verbatim>\<open>"{}".format(v)\<close>: \<^verbatim>\<open>str(v)\<close>; a member of an Enum class prints as Class.MEMBER.\<close>

fun py_str :: "pyval \<Rightarrow> string" where
  "py_str PyNone = ''None''"
| "py_str (PyStr s) = s"
| "py_str (PyInt i) = (if i < 0 then CHR ''-'' # decimal_digits (nat (- i)) else decimal_digits (nat i))"
| "py_str (PyProtocol TCP) = ''ProtocolEnum.TCP''"
| "py_str (PyProtocol UDP) = ''ProtocolEnum.UDP''"
| "py_str (PyProtocol WIREGUARD) = ''ProtocolEnum.WIREGUARD''"
| "py_str (PyDnsStatus ENABLED) = ''UserSettingStatusEnum.ENABLED''"
| "py_str (PyDnsStatus CUSTOM) = ''UserSettingStatusEnum.CUSTOM''"
| "py_str (PyNetshield MALWARE) = ''NetshieldTranslationEnum.MALWARE''"
| "py_str (PyNetshield ADS_MALWARE) = ''NetshieldTranslationEnum.ADS_MALWARE''"
| "py_str (PyNetshield DISABLED) = ''NetshieldTranslationEnum.DISABLED''"
| "py_str (PyKillswitch KILLSWITCH_OFF) = ''KillswitchStatusEnum.KILLSWITCH_OFF''"
| "py_str (PyKillswitch KILLSWITCH_ON) = ''KillswitchStatusEnum.KILLSWITCH_ON''"
| "py_str (PyKillswitch KILLSWITCH_PERMANENT) = ''KillswitchStatusEnum.KILLSWITCH_PERMANENT''"

definition get_protocol :: "world \<Rightarrow> ProtocolEnum" where
  "get_protocol w = default_protocol (conf w)"

definition incorrect_protocol_message :: "pyval \<Rightarrow> string" where
  "incorrect_protocol_message protocol_enum =
     CHR 0x0A # ''Selected option '' @ CHR 0x22 # py_str protocol_enum
     @ CHR 0x22 # '' is either incorrect '' @ ''or protocol is (yet) not supported''"

definition set_protocol :: "environment \<Rightarrow> pyval \<Rightarrow> world \<Rightarrow> unit outcome" where
  "set_protocol env protocol_enum w =
     (case protocol_enum of
        PyProtocol p \<Rightarrow> propagate (update_default_protocol env p w)
      | _ \<Rightarrow> (Inl (Exception (incorrect_protocol_message protocol_enum)), w))"

subsection \<open>DNS\<close>

definition get_dns :: "world \<Rightarrow> UserSettingStatusEnum" where
  "get_dns w = conf_dns_status (conf w)"

definition get_custom_dns_list :: "world \<Rightarrow> string list" where
  "get_custom_dns_list w = conf_custom_dns (conf w)"

definition is_valid_ip :: "environment \<Rightarrow> string \<Rightarrow> bool" where
  "is_valid_ip env ip = valid_ip env ip"

definition invalid_ip_message :: "string \<Rightarrow> string" where
  "invalid_ip_message dns_server_ip =
     CHR 0x0A # dns_server_ip @ '' is invalid. '' @ ''Please provide a valid IP DNS server.''"

text \<open>The \<^verbatim>\<open>for dns_server_ip in custom_dns_ips\<close> loop: it raises at the first invalid entry.\<close>

fun check_dns_server_ips :: "environment \<Rightarrow> string list \<Rightarrow> error option" where
  "check_dns_server_ips env [] = None"
| "check_dns_server_ips env (dns_server_ip # rest) =
     (if \<not> is_valid_ip env dns_server_ip
      then Some (Exception (invalid_ip_message dns_server_ip))
      else check_dns_server_ips env rest)"

text \<open>
  The list object that the \<^verbatim>\<open>def\<close> statement creates once for the default value
  \<^verbatim>\<open>custom_dns_ips=[]\<close>; every call that omits the argument receives this reference.
\<close>

definition custom_dns_ips_default :: ref where
  "custom_dns_ips_default = 0"

definition invalid_status_message :: "pyval \<Rightarrow> string" where
  "invalid_status_message setting_status =
     ''Invalid setting status '' @ CHR 0x22 # py_str setting_status @ [CHR 0x22]"

definition set_dns :: "environment \<Rightarrow> pyval \<Rightarrow> ref \<Rightarrow> world \<Rightarrow> unit outcome" where
  "set_dns env setting_status custom_dns_ips w =
     (case setting_status of
        PyDnsStatus s \<Rightarrow>
          (case (if lists w custom_dns_ips \<noteq> []
                 then check_dns_server_ips env (lists w custom_dns_ips) else None) of
             Some e \<Rightarrow> (Inl e, w)
           | None \<Rightarrow>
               (case update_dns env s custom_dns_ips w of
                  (Inl e, w') \<Rightarrow> (Inl (Exception (str_of e)), w')
                | (Inr u, w') \<Rightarrow> (Inr u, w')))
      | _ \<Rightarrow> (Inl (Exception (invalid_status_message setting_status)), w))"

text \<open>
  A caller that makes one call after another without the list argument, with the given
  first arguments, going on after a call that raised.
\<close>

fun set_dns_default_calls :: "environment \<Rightarrow> pyval list \<Rightarrow> world \<Rightarrow> world" where
  "set_dns_default_calls env [] w = w"
| "set_dns_default_calls env (s # ss) w =
     set_dns_default_calls env ss (snd (set_dns env s custom_dns_ips_default w))"

text \<open>The \<^verbatim>\<open>update_dns\<close> call that a call without the list argument makes, if it makes one.\<close>

fun default_call_trace :: "pyval \<Rightarrow> call list" where
  "default_call_trace (PyDnsStatus s) = [UPDATE_DNS s []]"
| "default_call_trace v = []"

subsection \<open>The settings dictionary and its readable form\<close>

datatype setting_value =
    ProtocolValue ProtocolEnum
  | KillswitchValue KillswitchStatusEnum
  | DnsStatusValue UserSettingStatusEnum
  | CustomDnsValue "string list"
  | NetshieldValue "NetshieldTranslationEnum option"
  | Readable string

type_synonym settings_dict = "(DisplayUserSettingsEnum \<times> setting_value) list"

text \<open>\<^verbatim>\<open>str.upper\<close> on the ASCII letters.\<close>

definition upper_char :: "char \<Rightarrow> char" where
  "upper_char c =
     (if 97 \<le> (of_char c :: nat) \<and> (of_char c :: nat) \<le> 122
      then char_of ((of_char c :: nat) - 32) else c)"

definition upper :: "string \<Rightarrow> string" where
  "upper s = map upper_char s"

text \<open>\<^verbatim>\<open>sep.join(xs)\<close>\<close>

fun join :: "string \<Rightarrow> string list \<Rightarrow> string" where
  "join sep [] = []"
| "join sep [x] = x"
| "join sep (x # y # ys) = x @ sep @ join sep (y # ys)"

text \<open>
  The method reads the five entries of \<^verbatim>\<open>raw_format\<close>, builds the four display strings
  and returns a dictionary of four entries. A subscription with a key that the dictionary
  does not have raises \<^verbatim>\<open>KeyError\<close>. The method is private; its only caller passes the
  dictionary built in \<^verbatim>\<open>_get_user_settings\<close>, whose entries have the types matched here.
\<close>

definition transform_user_setting_to_readable_format ::
  "environment \<Rightarrow> settings_dict \<Rightarrow> error + settings_dict" where
  "transform_user_setting_to_readable_format env raw_format =
     (case (map_of raw_format PROTOCOL, map_of raw_format KILLSWITCH, map_of raw_format DNS,
            map_of raw_format CUSTOM_DNS, map_of raw_format NETSHIELD) of
        (Some (ProtocolValue raw_protocol), Some (KillswitchValue raw_ks),
         Some (DnsStatusValue raw_dns), Some (CustomDnsValue raw_custom_dns),
         Some (NetshieldValue raw_ns)) \<Rightarrow>
          (let transformed_protocol =
                 (if raw_protocol \<in> set (SUPPORTED_PROTOCOLS OPENVPN)
                  then ''OpenVPN ('' @ upper (protocol_value raw_protocol) @ '')''
                  else upper (protocol_value raw_protocol))
           in case KILLSWITCH_STATUS_TEXT env raw_ks of
                None \<Rightarrow> Inl KeyError
              | Some transformed_ks \<Rightarrow>
                  (let dns_status =
                         [(ENABLED, ''Automatic''),
                          (CUSTOM, ''Custom: '' @ join '', '' raw_custom_dns)]
                   in case map_of dns_status raw_dns of
                        None \<Rightarrow> Inl KeyError
                      | Some transformed_dns \<Rightarrow>
                          (let netshield_status =
                                 [(Some MALWARE, ''Malware''),
                                  (Some ADS_MALWARE, ''Ads and malware''),
                                  (Some DISABLED, ''Disabled'')]
                           in case map_of netshield_status raw_ns of
                                None \<Rightarrow> Inl KeyError
                              | Some transformed_ns \<Rightarrow>
                                  Inr [(PROTOCOL, Readable transformed_protocol),
                                       (KILLSWITCH, Readable transformed_ks),
                                       (DNS, Readable transformed_dns),
                                       (NETSHIELD, Readable transformed_ns)])))
      | _ \<Rightarrow> Inl KeyError)"


section \<open>An instance of the collaborators\<close>

text \<open>
  Modelled from the spec: Validator.isValidIPv4 is true iff the candidate is four
  dot-separated decimal groups, each parseable as an integer in [0,255], with no extra
  characters.
\<close>

fun split_dots :: "string \<Rightarrow> string list" where
  "split_dots [] = [[]]"
| "split_dots (c # cs) =
     (if c = CHR ''.'' then [] # split_dots cs
      else (case split_dots cs of g # gs \<Rightarrow> (c # g) # gs | [] \<Rightarrow> [[c]]))"

definition is_digit :: "char \<Rightarrow> bool" where
  "is_digit c = (48 \<le> (of_char c :: nat) \<and> (of_char c :: nat) \<le> 57)"

definition decimal_value :: "string \<Rightarrow> nat" where
  "decimal_value g = foldl (\<lambda>n c. 10 * n + ((of_char c :: nat) - 48)) 0 g"

definition is_octet :: "string \<Rightarrow> bool" where
  "is_octet g = (g \<noteq> [] \<and> list_all is_digit g \<and> decimal_value g \<le> 255)"

definition isValidIPv4 :: "string \<Rightarrow> bool" where
  "isValidIPv4 candidate =
     (case split_dots candidate of
        [a, b, c, d] \<Rightarrow> is_octet a \<and> is_octet b \<and> is_octet c \<and> is_octet d
      | _ \<Rightarrow> False)"

text \<open>
  Collaborators that never fail, with \<^verbatim>\<open>NetshieldTranslationEnum\<close> a plain Enum class and
  a kill switch table with a text for every mode.
\<close>

definition plain_collaborators :: environment where
  "plain_collaborators =
     \<lparr>enum_bool = (\<lambda>m. True),
      KILLSWITCH_STATUS_TEXT =
        (\<lambda>k. Some (case k of KILLSWITCH_OFF \<Rightarrow> ''Off'' | KILLSWITCH_ON \<Rightarrow> ''On''
                    | KILLSWITCH_PERMANENT \<Rightarrow> ''Always-on'')),
      valid_ip = isValidIPv4,
      raises = (\<lambda>c. None)\<rparr>"

text \<open>Collaborators whose kill switch controller cannot disable the connectivity check.\<close>

definition stuck_connectivity_check :: environment where
  "stuck_connectivity_check =
     plain_collaborators
       \<lparr>raises := (\<lambda>c. case c of
                     UPDATE_FROM_USER_CONFIGURATION_MENU k \<Rightarrow>
                       Some (DisableConnectivityCheckError ''nmcli failed'')
                   | _ \<Rightarrow> None)\<rparr>"

text \<open>
  A world: the persisted configuration, the tier, and the list objects; reference 0 is the
  default list of \<^verbatim>\<open>_set_dns\<close>, empty as created.
\<close>

definition stored_settings :: user_conf_manager where
  "stored_settings =
     \<lparr>default_protocol = UDP, killswitch = KILLSWITCH_OFF, conf_dns_status = CUSTOM,
      conf_custom_dns = [''9.9.9.9''], netshield = Some ADS_MALWARE\<rparr>"

definition free_world :: world where
  "free_world =
     \<lparr>conf = stored_settings, tier = FREE,
      lists = (\<lambda>r. if r = 1 then [''1.2.3.4'', ''300.1.1.1'']
                   else if r = 2 then [''1.1.1.1'', ''8.8.8.8''] else []),
      calls = []\<rparr>"

definition plus_world :: world where
  "plus_world = free_world\<lparr>tier := PAID 1\<rparr>"

section \<open>Facts about collaborator calls\<close>

lemma collaborator_call_ok:
  "raises env c = None \<Longrightarrow>
     collaborator_call env c effect w
       = (Inr (), w\<lparr>conf := effect (conf w), calls := calls w @ [c]\<rparr>)"
  by (simp add: collaborator_call_def)

lemma collaborator_call_raises:
  "raises env c = Some e \<Longrightarrow>
     collaborator_call env c effect w = (Inl e, w\<lparr>calls := calls w @ [c]\<rparr>)"
  by (simp add: collaborator_call_def)

lemma collaborator_call_calls:
  "calls (snd (collaborator_call env c effect w)) = calls w @ [c]"
  by (simp add: collaborator_call_def split: option.splits)

lemma collaborator_call_lists:
  "lists (snd (collaborator_call env c effect w)) = lists w"
  by (simp add: collaborator_call_def split: option.splits)

section \<open>NetShield\<close>

lemma set_netshield_member_true:
  "enum_bool env m \<Longrightarrow>
     set_netshield env (Some m) w = propagate (update_netshield env (Some m) w)"
  by (simp add: set_netshield_def)


text \<open>The guard fires on a false argument: \<^verbatim>\<open>None\<close> on the Free tier gets the upgrade prompt.\<close>

lemma set_netshield_none_free_tier:
  "tier w = FREE \<Longrightarrow> set_netshield env None w = (Inl (Exception upgrade_prompt), w)"
  by (simp add: set_netshield_def)

lemma propagate_update_netshield:
  "propagate (update_netshield env v w) =
     (case raises env (UPDATE_NETSHIELD v) of
        None \<Rightarrow> (Inr (), w\<lparr>conf := (conf w)\<lparr>netshield := v\<rparr>,
                           calls := calls w @ [UPDATE_NETSHIELD v]\<rparr>)
      | Some e \<Rightarrow> (Inl (Propagated e), w\<lparr>calls := calls w @ [UPDATE_NETSHIELD v]\<rparr>))"
  by (simp add: propagate_def update_netshield_def collaborator_call_def split: option.splits)

text \<open>
  Claim C1 says that \<^verbatim>\<open>_set_netshield\<close> with a level other than the disabling one raises
  the exception with the upgrade prompt when the tier is Free, before any call of
  \<^verbatim>\<open>update_netshield\<close>. The guard of the method is \<^verbatim>\<open>not netshield_enum and tier == FREE\<close>:
  it fires on a false argument, not on an enabling level. On the Free tier, with the members
  of \<^verbatim>\<open>NetshieldTranslationEnum\<close> true as the members of an Enum class are, the call with
  \<^verbatim>\<open>MALWARE\<close> or \<^verbatim>\<open>ADS_MALWARE\<close> returns normally, \<^verbatim>\<open>update_netshield\<close> is called and the level
  is persisted.
\<close>

theorem set_netshield_free_tier_not_gated:
  "tier free_world = FREE
   \<and> set_netshield plain_collaborators (Some MALWARE) free_world
       = (Inr (), free_world\<lparr>conf := stored_settings\<lparr>netshield := Some MALWARE\<rparr>,
                            calls := [UPDATE_NETSHIELD (Some MALWARE)]\<rparr>)
   \<and> set_netshield plain_collaborators (Some ADS_MALWARE) free_world
       = (Inr (), free_world\<lparr>conf := stored_settings\<lparr>netshield := Some ADS_MALWARE\<rparr>,
                            calls := [UPDATE_NETSHIELD (Some ADS_MALWARE)]\<rparr>)"
  by (simp add: set_netshield_def propagate_update_netshield free_world_def
        plain_collaborators_def)

text \<open>
  Claim C2: for every tier, Free included, \<^verbatim>\<open>_set_netshield(NetshieldTranslationEnum.DISABLED)\<close>
  raises nothing of its own and hands the value to \<^verbatim>\<open>update_netshield\<close>: the call is made,
  the outcome is the collaborator's, and when the collaborator accepts the value
  \<^verbatim>\<open>_get_netshield\<close> returns \<^verbatim>\<open>DISABLED\<close> afterwards. The member \<^verbatim>\<open>DISABLED\<close> is true, as
  every member of an Enum class without a data-type mixin is.
\<close>

theorem set_netshield_disabled_any_tier:
  assumes "enum_bool env DISABLED"
  shows "calls (snd (set_netshield env (Some DISABLED) w))
           = calls w @ [UPDATE_NETSHIELD (Some DISABLED)]
         \<and> fst (set_netshield env (Some DISABLED) w)
           = (case raises env (UPDATE_NETSHIELD (Some DISABLED)) of
                None \<Rightarrow> Inr () | Some e \<Rightarrow> Inl (Propagated e))
         \<and> (raises env (UPDATE_NETSHIELD (Some DISABLED)) = None
              \<longrightarrow> get_netshield (snd (set_netshield env (Some DISABLED) w)) = Some DISABLED)"
  using assms
  by (simp add: set_netshield_member_true propagate_update_netshield get_netshield_def
        split: option.splits)

theorem set_netshield_disabled_any_tier_witness:
  "enum_bool plain_collaborators DISABLED
   \<and> tier free_world = FREE
   \<and> calls (snd (set_netshield plain_collaborators (Some DISABLED) free_world))
       = [UPDATE_NETSHIELD (Some DISABLED)]
   \<and> fst (set_netshield plain_collaborators (Some DISABLED) free_world) = Inr ()
   \<and> get_netshield (snd (set_netshield plain_collaborators (Some DISABLED) free_world))
       = Some DISABLED"
proof -
  have h: "enum_bool plain_collaborators DISABLED"
    by (simp add: plain_collaborators_def)
  have r: "raises plain_collaborators (UPDATE_NETSHIELD (Some DISABLED)) = None"
    by (simp add: plain_collaborators_def)
  have c: "calls free_world = []" and t: "tier free_world = FREE"
    by (simp_all add: free_world_def)
  show ?thesis
    using set_netshield_disabled_any_tier [OF h, of free_world] h r c t by simp
qed

section \<open>Kill switch\<close>

lemma set_killswitch_unfold:
  "set_killswitch env k w =
     (case raises env (UPDATE_FROM_USER_CONFIGURATION_MENU k) of
        Some (DisableConnectivityCheckError m) \<Rightarrow>
          (Inl (Exception connectivity_check_message),
           w\<lparr>calls := calls w @ [UPDATE_FROM_USER_CONFIGURATION_MENU k]\<rparr>)
      | Some e \<Rightarrow>
          (Inl (Exception (str_of e)),
           w\<lparr>calls := calls w @ [UPDATE_FROM_USER_CONFIGURATION_MENU k]\<rparr>)
      | None \<Rightarrow>
          propagate (update_killswitch env k
            (w\<lparr>calls := calls w @ [UPDATE_FROM_USER_CONFIGURATION_MENU k]\<rparr>)))"
  by (simp add: set_killswitch_def update_from_user_configuration_menu_def
        collaborator_call_def split: option.splits collab_error.splits)

lemma propagate_update_killswitch_calls:
  "calls (snd (propagate (update_killswitch env k w))) = calls w @ [UPDATE_KILLSWITCH k]"
  by (simp add: propagate_def update_killswitch_def collaborator_call_def
        split: option.splits)

lemma connectivity_check_message_guidance:
  "connectivity_check_message =
     (CHR 0x0A # ''Unable to set kill switch setting: Connectivity check could not be disabled.''
        @ [CHR 0x0A] @ ''Please '')
     @ ''disable connectivity check manually'' @ '' to be able to use the killswitch feature.''"
  by (simp add: connectivity_check_message_def)

text \<open>
  Claim C3: for every kill switch mode, \<^verbatim>\<open>_set_killswitch\<close> calls
  \<^verbatim>\<open>ks_manager.update_from_user_configuration_menu\<close> first, and \<^verbatim>\<open>update_killswitch\<close> is
  called exactly when that call returned without raising. When the controller raises
  \<^verbatim>\<open>DisableConnectivityCheckError\<close>, the method raises the exception whose message asks the
  user to disable the connectivity check manually (the spec's KillSwitchConfigurationError),
  and the persisted configuration, the kill switch mode in particular, is as before.
\<close>

theorem set_killswitch_controller_first:
  "calls (snd (set_killswitch env k w))
     = calls w @ UPDATE_FROM_USER_CONFIGURATION_MENU k
         # (if raises env (UPDATE_FROM_USER_CONFIGURATION_MENU k) = None
            then [UPDATE_KILLSWITCH k] else [])
   \<and> (\<forall>m. raises env (UPDATE_FROM_USER_CONFIGURATION_MENU k)
              = Some (DisableConnectivityCheckError m)
        \<longrightarrow> fst (set_killswitch env k w) = Inl (Exception connectivity_check_message)
            \<and> (\<exists>pre post. connectivity_check_message
                  = pre @ ''disable connectivity check manually'' @ post)
            \<and> conf (snd (set_killswitch env k w)) = conf w
            \<and> get_killswitch (snd (set_killswitch env k w)) = get_killswitch w)"
proof (intro conjI allI impI)
  show "calls (snd (set_killswitch env k w))
     = calls w @ UPDATE_FROM_USER_CONFIGURATION_MENU k
         # (if raises env (UPDATE_FROM_USER_CONFIGURATION_MENU k) = None
            then [UPDATE_KILLSWITCH k] else [])"
    by (simp add: set_killswitch_unfold propagate_update_killswitch_calls
          split: option.splits collab_error.splits)
next
  fix m
  assume r: "raises env (UPDATE_FROM_USER_CONFIGURATION_MENU k)
               = Some (DisableConnectivityCheckError m)"
  show "fst (set_killswitch env k w) = Inl (Exception connectivity_check_message)"
    using r by (simp add: set_killswitch_unfold)
  show "\<exists>pre post. connectivity_check_message
          = pre @ ''disable connectivity check manually'' @ post"
    using connectivity_check_message_guidance by blast
  show "conf (snd (set_killswitch env k w)) = conf w"
    using r by (simp add: set_killswitch_unfold)
  then show "get_killswitch (snd (set_killswitch env k w)) = get_killswitch w"
    by (simp add: get_killswitch_def)
qed

theorem set_killswitch_controller_first_witness:
  "raises stuck_connectivity_check (UPDATE_FROM_USER_CONFIGURATION_MENU KILLSWITCH_ON)
     = Some (DisableConnectivityCheckError ''nmcli failed'')
   \<and> calls (snd (set_killswitch stuck_connectivity_check KILLSWITCH_ON free_world))
       = [UPDATE_FROM_USER_CONFIGURATION_MENU KILLSWITCH_ON]
   \<and> fst (set_killswitch stuck_connectivity_check KILLSWITCH_ON free_world)
       = Inl (Exception connectivity_check_message)
   \<and> get_killswitch (snd (set_killswitch stuck_connectivity_check KILLSWITCH_ON free_world))
       = KILLSWITCH_OFF
   \<and> calls (snd (set_killswitch plain_collaborators KILLSWITCH_ON free_world))
       = [UPDATE_FROM_USER_CONFIGURATION_MENU KILLSWITCH_ON, UPDATE_KILLSWITCH KILLSWITCH_ON]"
proof -
  have r: "raises stuck_connectivity_check (UPDATE_FROM_USER_CONFIGURATION_MENU KILLSWITCH_ON)
             = Some (DisableConnectivityCheckError ''nmcli failed'')"
    by (simp add: stuck_connectivity_check_def plain_collaborators_def)
  have p: "raises plain_collaborators (UPDATE_FROM_USER_CONFIGURATION_MENU KILLSWITCH_ON) = None"
    by (simp add: plain_collaborators_def)
  have c: "calls free_world = []"
    and g: "get_killswitch free_world = KILLSWITCH_OFF"
    by (simp_all add: free_world_def get_killswitch_def stored_settings_def)
  show ?thesis
    using set_killswitch_controller_first [of stuck_connectivity_check KILLSWITCH_ON free_world]
      set_killswitch_controller_first [of plain_collaborators KILLSWITCH_ON free_world]
      r p c g
    by simp
qed

section \<open>Protocol\<close>

lemma propagate_update_default_protocol:
  "propagate (update_default_protocol env p w) =
     (case raises env (UPDATE_DEFAULT_PROTOCOL p) of
        None \<Rightarrow> (Inr (), w\<lparr>conf := (conf w)\<lparr>default_protocol := p\<rparr>,
                           calls := calls w @ [UPDATE_DEFAULT_PROTOCOL p]\<rparr>)
      | Some e \<Rightarrow> (Inl (Propagated e), w\<lparr>calls := calls w @ [UPDATE_DEFAULT_PROTOCOL p]\<rparr>))"
  by (simp add: propagate_def update_default_protocol_def collaborator_call_def
        split: option.splits)

text \<open>
  Claim C4: for every member \<open>p\<close> of \<^verbatim>\<open>ProtocolEnum\<close>, \<^verbatim>\<open>_set_protocol(p)\<close> followed by
  \<^verbatim>\<open>_get_protocol()\<close> returns \<open>p\<close> (the store accepting the write); for every value that is
  not a member of \<^verbatim>\<open>ProtocolEnum\<close>, \<^verbatim>\<open>_set_protocol\<close> raises the exception saying that the
  option is incorrect or not supported (the spec's InvalidSettingError) and the world is as
  before: no call of \<^verbatim>\<open>update_default_protocol\<close> is made.
\<close>

theorem set_protocol_then_get_protocol:
  "(raises env (UPDATE_DEFAULT_PROTOCOL p) = None
      \<longrightarrow> fst (set_protocol env (PyProtocol p) w) = Inr ()
          \<and> get_protocol (snd (set_protocol env (PyProtocol p) w)) = p)
   \<and> ((\<forall>q. v \<noteq> PyProtocol q)
      \<longrightarrow> set_protocol env v w = (Inl (Exception (incorrect_protocol_message v)), w))"
proof (intro conjI impI)
  assume "raises env (UPDATE_DEFAULT_PROTOCOL p) = None"
  then show "fst (set_protocol env (PyProtocol p) w) = Inr ()"
    and "get_protocol (snd (set_protocol env (PyProtocol p) w)) = p"
    by (simp_all add: set_protocol_def propagate_update_default_protocol get_protocol_def)
next
  assume "\<forall>q. v \<noteq> PyProtocol q"
  then show "set_protocol env v w = (Inl (Exception (incorrect_protocol_message v)), w)"
    by (cases v) (simp_all add: set_protocol_def)
qed

theorem set_protocol_then_get_protocol_witness:
  "raises plain_collaborators (UPDATE_DEFAULT_PROTOCOL WIREGUARD) = None
   \<and> get_protocol free_world = UDP
   \<and> fst (set_protocol plain_collaborators (PyProtocol WIREGUARD) free_world) = Inr ()
   \<and> get_protocol (snd (set_protocol plain_collaborators (PyProtocol WIREGUARD) free_world))
       = WIREGUARD
   \<and> (\<forall>q. PyStr ''ikev2'' \<noteq> PyProtocol q)
   \<and> set_protocol plain_collaborators (PyStr ''ikev2'') free_world
       = (Inl (Exception (incorrect_protocol_message (PyStr ''ikev2''))), free_world)"
proof -
  have r: "raises plain_collaborators (UPDATE_DEFAULT_PROTOCOL WIREGUARD) = None"
    by (simp add: plain_collaborators_def)
  have g: "get_protocol free_world = UDP"
    by (simp add: get_protocol_def free_world_def stored_settings_def)
  have n: "\<forall>q. PyStr ''ikev2'' \<noteq> PyProtocol q"
    by simp
  show ?thesis
    using set_protocol_then_get_protocol
            [of plain_collaborators WIREGUARD free_world "PyStr ''ikev2''"] r g n
    by simp
qed

section \<open>DNS\<close>

lemma check_dns_server_ips_first_invalid:
  "\<forall>ip \<in> set pre. valid_ip env ip \<Longrightarrow> \<not> valid_ip env bad \<Longrightarrow>
     check_dns_server_ips env (pre @ bad # post) = Some (Exception (invalid_ip_message bad))"
  by (induction pre) (simp_all add: is_valid_ip_def)

lemma check_dns_server_ips_all_valid:
  "\<forall>ip \<in> set ips. valid_ip env ip \<Longrightarrow> check_dns_server_ips env ips = None"
  by (induction ips) (simp_all add: is_valid_ip_def)

lemma update_dns_unfold:
  "update_dns env s r w =
     (case raises env (UPDATE_DNS s (lists w r)) of
        None \<Rightarrow> (Inr (), w\<lparr>conf := (conf w)\<lparr>conf_dns_status := s, conf_custom_dns := lists w r\<rparr>,
                           calls := calls w @ [UPDATE_DNS s (lists w r)]\<rparr>)
      | Some e \<Rightarrow> (Inl e, w\<lparr>calls := calls w @ [UPDATE_DNS s (lists w r)]\<rparr>))"
  by (simp add: update_dns_def collaborator_call_def split: option.splits)

lemma set_dns_rejected:
  "lists w r \<noteq> [] \<Longrightarrow> check_dns_server_ips env (lists w r) = Some e \<Longrightarrow>
     set_dns env (PyDnsStatus s) r w = (Inl e, w)"
  by (simp add: set_dns_def)

lemma set_dns_delegates:
  "lists w r = [] \<or> check_dns_server_ips env (lists w r) = None \<Longrightarrow>
     set_dns env (PyDnsStatus s) r w =
       (case raises env (UPDATE_DNS s (lists w r)) of
          None \<Rightarrow> (Inr (), w\<lparr>conf := (conf w)\<lparr>conf_dns_status := s,
                                             conf_custom_dns := lists w r\<rparr>,
                             calls := calls w @ [UPDATE_DNS s (lists w r)]\<rparr>)
        | Some e \<Rightarrow> (Inl (Exception (str_of e)),
                     w\<lparr>calls := calls w @ [UPDATE_DNS s (lists w r)]\<rparr>))"
  by (auto simp add: set_dns_def update_dns_unfold split: option.splits)

text \<open>
  Claim C5: for every DNS mode and every list with at least one entry that
  \<^verbatim>\<open>is_valid_ip\<close> rejects, \<^verbatim>\<open>_set_dns\<close> raises the exception naming the first rejected
  entry in list order (the spec's InvalidIpError; every entry before it is valid): its
  message is a newline, that entry, and the text
  \<^verbatim>\<open> is invalid. Please provide a valid IP DNS server.\<close> The world is as before:
  \<^verbatim>\<open>update_dns\<close> is not called and no entry is persisted.
\<close>

theorem set_dns_first_invalid_ip:
  assumes "\<exists>ip \<in> set (lists w r). \<not> valid_ip env ip"
  shows "\<exists>pre bad post.
           lists w r = pre @ bad # post
           \<and> (\<forall>ip \<in> set pre. valid_ip env ip) \<and> \<not> valid_ip env bad
           \<and> set_dns env (PyDnsStatus s) r w
               = (Inl (Exception (CHR 0x0A # bad
                                  @ '' is invalid. Please provide a valid IP DNS server.'')),
                  w)"
proof -
  from assms obtain pre bad post
    where split: "lists w r = pre @ bad # post"
      and bad: "\<not> valid_ip env bad"
      and pre: "\<forall>ip \<in> set pre. valid_ip env ip"
    using split_list_first_prop [of "lists w r" "\<lambda>ip. \<not> valid_ip env ip"] by auto
  have "check_dns_server_ips env (lists w r) = Some (Exception (invalid_ip_message bad))"
    using split check_dns_server_ips_first_invalid [OF pre bad] by simp
  moreover have "lists w r \<noteq> []"
    using split by simp
  ultimately have "set_dns env (PyDnsStatus s) r w
                     = (Inl (Exception (invalid_ip_message bad)), w)"
    by (rule set_dns_rejected [rotated])
  then have "set_dns env (PyDnsStatus s) r w
               = (Inl (Exception (CHR 0x0A # bad
                                  @ '' is invalid. Please provide a valid IP DNS server.'')),
                  w)"
    by (simp add: invalid_ip_message_def)
  with split pre bad show ?thesis by blast
qed

lemma example_ips:
  "valid_ip plain_collaborators ''1.2.3.4''" "\<not> valid_ip plain_collaborators ''300.1.1.1''"
  "valid_ip plain_collaborators ''1.1.1.1''" "valid_ip plain_collaborators ''8.8.8.8''"
  by (simp_all add: plain_collaborators_def isValidIPv4_def is_octet_def is_digit_def
        decimal_value_def)

theorem set_dns_first_invalid_ip_witness:
  "(\<exists>ip \<in> set (lists free_world 1). \<not> valid_ip plain_collaborators ip)
   \<and> lists free_world 1 = [''1.2.3.4'', ''300.1.1.1'']
   \<and> set_dns plain_collaborators (PyDnsStatus CUSTOM) 1 free_world
       = (Inl (Exception (CHR 0x0A
                          # ''300.1.1.1 is invalid. Please provide a valid IP DNS server.'')),
          free_world)"
proof -
  have l: "lists free_world 1 = [''1.2.3.4'', ''300.1.1.1'']"
    by (simp add: free_world_def)
  have h: "\<exists>ip \<in> set (lists free_world 1). \<not> valid_ip plain_collaborators ip"
    using l example_ips by simp
  obtain pre bad post where
    s: "[''1.2.3.4'', ''300.1.1.1''] = pre @ bad # post"
    and p: "\<forall>ip \<in> set pre. valid_ip plain_collaborators ip"
    and b: "\<not> valid_ip plain_collaborators bad"
    and r: "set_dns plain_collaborators (PyDnsStatus CUSTOM) 1 free_world
              = (Inl (Exception (CHR 0x0A # bad
                                 @ '' is invalid. Please provide a valid IP DNS server.'')),
                 free_world)"
    using set_dns_first_invalid_ip [OF h, of CUSTOM] l by auto
  have "bad = ''300.1.1.1''"
    using s p b example_ips by (auto simp: Cons_eq_append_conv)
  with h l r show ?thesis by simp
qed

text \<open>
  Against claim C6 as stated: \<^verbatim>\<open>_set_dns(UserSettingStatusEnum.CUSTOM, [])\<close> is not
  rejected. The validation loop is skipped for an empty list, \<^verbatim>\<open>update_dns\<close> is called with
  the mode and the empty list, and with a store that accepts the write the mode Custom is
  persisted with no server.
\<close>

theorem set_dns_custom_empty_accepted:
  "lists free_world 3 = []
   \<and> set_dns plain_collaborators (PyDnsStatus CUSTOM) 3 free_world
       = (Inr (), free_world\<lparr>conf := stored_settings\<lparr>conf_dns_status := CUSTOM,
                                                     conf_custom_dns := []\<rparr>,
                            calls := [UPDATE_DNS CUSTOM []]\<rparr>)"
proof -
  have l: "lists free_world 3 = []"
    by (simp add: free_world_def)
  have r: "raises plain_collaborators (UPDATE_DNS CUSTOM []) = None"
    by (simp add: plain_collaborators_def)
  have c: "conf free_world = stored_settings" "calls free_world = []"
    by (simp_all add: free_world_def)
  show ?thesis
    using l r c by (simp add: set_dns_delegates split: option.splits)
qed

text \<open>
  Claim C6, amended: \<^verbatim>\<open>_set_dns\<close> with the mode Custom and an empty list makes no check
  of its own; it calls \<^verbatim>\<open>update_dns(CUSTOM, [])\<close> and its outcome is that call's: the mode
  and the empty list are persisted when the store accepts them, and when the store raises,
  the exception is raised again as an \<^verbatim>\<open>Exception\<close> with the same text.
\<close>

theorem set_dns_custom_empty_delegates:
  assumes "lists w r = []"
  shows "set_dns env (PyDnsStatus CUSTOM) r w =
           (case raises env (UPDATE_DNS CUSTOM []) of
              None \<Rightarrow> (Inr (), w\<lparr>conf := (conf w)\<lparr>conf_dns_status := CUSTOM,
                                                 conf_custom_dns := []\<rparr>,
                                 calls := calls w @ [UPDATE_DNS CUSTOM []]\<rparr>)
            | Some e \<Rightarrow> (Inl (Exception (str_of e)),
                         w\<lparr>calls := calls w @ [UPDATE_DNS CUSTOM []]\<rparr>))"
  using assms by (simp add: set_dns_delegates split: option.splits)

theorem set_dns_custom_empty_delegates_witness:
  "lists plus_world 3 = []
   \<and> fst (set_dns plain_collaborators (PyDnsStatus CUSTOM) 3 plus_world) = Inr ()
   \<and> get_dns (snd (set_dns plain_collaborators (PyDnsStatus CUSTOM) 3 plus_world)) = CUSTOM
   \<and> get_custom_dns_list (snd (set_dns plain_collaborators (PyDnsStatus CUSTOM) 3 plus_world))
       = []"
proof -
  have l: "lists plus_world 3 = []"
    by (simp add: plus_world_def free_world_def)
  have r: "raises plain_collaborators (UPDATE_DNS CUSTOM []) = None"
    by (simp add: plain_collaborators_def)
  show ?thesis
    using set_dns_custom_empty_delegates [OF l, of plain_collaborators] l r
    by (simp add: get_dns_def get_custom_dns_list_def)
qed

text \<open>
  Claim C9: \<^verbatim>\<open>_set_dns\<close> validates a non-empty list whatever the mode. With the mode
  Automatic (\<^verbatim>\<open>UserSettingStatusEnum.ENABLED\<close>) a list with an invalid entry makes the call
  raise the exception naming an invalid entry, the world being as before; a list of valid
  entries is passed to \<^verbatim>\<open>update_dns\<close> together with the mode Automatic, and is persisted
  when the store accepts it.
\<close>

theorem set_dns_validates_in_every_mode:
  assumes "lists w r \<noteq> []"
  shows "((\<exists>ip \<in> set (lists w r). \<not> valid_ip env ip)
            \<longrightarrow> (\<exists>bad \<in> set (lists w r). \<not> valid_ip env bad
                   \<and> set_dns env (PyDnsStatus ENABLED) r w
                       = (Inl (Exception (invalid_ip_message bad)), w)))
         \<and> ((\<forall>ip \<in> set (lists w r). valid_ip env ip)
            \<longrightarrow> calls (snd (set_dns env (PyDnsStatus ENABLED) r w))
                   = calls w @ [UPDATE_DNS ENABLED (lists w r)]
               \<and> (raises env (UPDATE_DNS ENABLED (lists w r)) = None
                    \<longrightarrow> fst (set_dns env (PyDnsStatus ENABLED) r w) = Inr ()
                        \<and> get_dns (snd (set_dns env (PyDnsStatus ENABLED) r w)) = ENABLED
                        \<and> get_custom_dns_list (snd (set_dns env (PyDnsStatus ENABLED) r w))
                            = lists w r))"
proof (rule conjI; rule impI)
  assume "\<exists>ip \<in> set (lists w r). \<not> valid_ip env ip"
  then obtain pre bad post
    where split: "lists w r = pre @ bad # post"
      and bad: "\<not> valid_ip env bad"
      and pre: "\<forall>ip \<in> set pre. valid_ip env ip"
    using split_list_first_prop [of "lists w r" "\<lambda>ip. \<not> valid_ip env ip"] by auto
  have "check_dns_server_ips env (lists w r) = Some (Exception (invalid_ip_message bad))"
    using split check_dns_server_ips_first_invalid [OF pre bad] by simp
  with assms have "set_dns env (PyDnsStatus ENABLED) r w
                     = (Inl (Exception (invalid_ip_message bad)), w)"
    by (simp add: set_dns_rejected)
  moreover have "bad \<in> set (lists w r)"
    using split by simp
  ultimately show "\<exists>bad \<in> set (lists w r). \<not> valid_ip env bad
                     \<and> set_dns env (PyDnsStatus ENABLED) r w
                         = (Inl (Exception (invalid_ip_message bad)), w)"
    using bad by blast
next
  assume valid: "\<forall>ip \<in> set (lists w r). valid_ip env ip"
  have d: "set_dns env (PyDnsStatus ENABLED) r w =
       (case raises env (UPDATE_DNS ENABLED (lists w r)) of
          None \<Rightarrow> (Inr (), w\<lparr>conf := (conf w)\<lparr>conf_dns_status := ENABLED,
                                             conf_custom_dns := lists w r\<rparr>,
                             calls := calls w @ [UPDATE_DNS ENABLED (lists w r)]\<rparr>)
        | Some e \<Rightarrow> (Inl (Exception (str_of e)),
                     w\<lparr>calls := calls w @ [UPDATE_DNS ENABLED (lists w r)]\<rparr>))"
    using check_dns_server_ips_all_valid [OF valid] by (simp add: set_dns_delegates)
  show "calls (snd (set_dns env (PyDnsStatus ENABLED) r w))
          = calls w @ [UPDATE_DNS ENABLED (lists w r)]
        \<and> (raises env (UPDATE_DNS ENABLED (lists w r)) = None
          \<longrightarrow> fst (set_dns env (PyDnsStatus ENABLED) r w) = Inr ()
              \<and> get_dns (snd (set_dns env (PyDnsStatus ENABLED) r w)) = ENABLED
              \<and> get_custom_dns_list (snd (set_dns env (PyDnsStatus ENABLED) r w))
                  = lists w r)"
    by (simp add: d get_dns_def get_custom_dns_list_def split: option.splits)
qed

theorem set_dns_validates_in_every_mode_witness:
  "lists free_world 2 = [''1.1.1.1'', ''8.8.8.8'']
   \<and> valid_ip plain_collaborators ''1.1.1.1'' \<and> valid_ip plain_collaborators ''8.8.8.8''
   \<and> calls (snd (set_dns plain_collaborators (PyDnsStatus ENABLED) 2 free_world))
       = [UPDATE_DNS ENABLED [''1.1.1.1'', ''8.8.8.8'']]
   \<and> fst (set_dns plain_collaborators (PyDnsStatus ENABLED) 2 free_world) = Inr ()
   \<and> get_dns (snd (set_dns plain_collaborators (PyDnsStatus ENABLED) 2 free_world)) = ENABLED
   \<and> get_custom_dns_list (snd (set_dns plain_collaborators (PyDnsStatus ENABLED) 2 free_world))
       = [''1.1.1.1'', ''8.8.8.8'']
   \<and> lists free_world 1 = [''1.2.3.4'', ''300.1.1.1'']
   \<and> (\<exists>bad \<in> set (lists free_world 1). \<not> valid_ip plain_collaborators bad
         \<and> set_dns plain_collaborators (PyDnsStatus ENABLED) 1 free_world
             = (Inl (Exception (invalid_ip_message bad)), free_world))"
proof -
  have l2: "lists free_world 2 = [''1.1.1.1'', ''8.8.8.8'']"
    and l1: "lists free_world 1 = [''1.2.3.4'', ''300.1.1.1'']"
    and c: "calls free_world = []"
    by (simp_all add: free_world_def)
  have n2: "lists free_world 2 \<noteq> []" and n1: "lists free_world 1 \<noteq> []"
    using l1 l2 by simp_all
  have v: "\<forall>ip \<in> set (lists free_world 2). valid_ip plain_collaborators ip"
    using l2 example_ips by simp
  have i: "\<exists>ip \<in> set (lists free_world 1). \<not> valid_ip plain_collaborators ip"
    using l1 example_ips by simp
  have r: "raises plain_collaborators (UPDATE_DNS ENABLED (lists free_world 2)) = None"
    by (simp add: plain_collaborators_def)
  have a: "calls (snd (set_dns plain_collaborators (PyDnsStatus ENABLED) 2 free_world))
             = [UPDATE_DNS ENABLED [''1.1.1.1'', ''8.8.8.8'']]
           \<and> fst (set_dns plain_collaborators (PyDnsStatus ENABLED) 2 free_world) = Inr ()
           \<and> get_dns (snd (set_dns plain_collaborators (PyDnsStatus ENABLED) 2 free_world))
               = ENABLED
           \<and> get_custom_dns_list
                (snd (set_dns plain_collaborators (PyDnsStatus ENABLED) 2 free_world))
               = [''1.1.1.1'', ''8.8.8.8'']"
    using set_dns_validates_in_every_mode [OF n2, of plain_collaborators] v r l2 c by simp
  have b: "\<exists>bad \<in> set (lists free_world 1). \<not> valid_ip plain_collaborators bad
             \<and> set_dns plain_collaborators (PyDnsStatus ENABLED) 1 free_world
                 = (Inl (Exception (invalid_ip_message bad)), free_world)"
    using set_dns_validates_in_every_mode [OF n1, of plain_collaborators] i by blast
  show ?thesis
    using l1 l2 example_ips a b by blast
qed

lemma set_dns_lists:
  "lists (snd (set_dns env v r w)) = lists w"
  by (cases v)
     (auto simp add: set_dns_def update_dns_unfold split: option.splits)

lemma set_dns_default_trace:
  "lists w custom_dns_ips_default = [] \<Longrightarrow>
     calls (snd (set_dns env v custom_dns_ips_default w)) = calls w @ default_call_trace v"
  by (cases v)
     (auto simp add: set_dns_def update_dns_unfold split: option.splits)

lemma set_dns_default_calls_lists:
  "lists (set_dns_default_calls env vs w) = lists w"
  by (induction vs arbitrary: w) (simp_all add: set_dns_lists)

lemma set_dns_default_calls_trace:
  "lists w custom_dns_ips_default = [] \<Longrightarrow>
     calls (set_dns_default_calls env vs w) = calls w @ concat (map default_call_trace vs)"
proof (induction vs arbitrary: w)
  case Nil
  then show ?case by simp
next
  case (Cons v vs)
  let ?w' = "snd (set_dns env v custom_dns_ips_default w)"
  have "lists ?w' custom_dns_ips_default = []"
    using Cons.prems by (simp add: set_dns_lists)
  then have "calls (set_dns_default_calls env vs ?w')
               = calls ?w' @ concat (map default_call_trace vs)"
    by (rule Cons.IH)
  then show ?case
    using Cons.prems by (simp add: set_dns_default_trace)
qed

text \<open>
  Claim C10: \<^verbatim>\<open>_set_dns\<close> writes to no list object, the one it is given included. Across
  any sequence of calls without the list argument the default list stays empty, and every
  \<^verbatim>\<open>update_dns\<close> call made in the sequence carries the empty list: the trace grows by one
  \<^verbatim>\<open>update_dns(status, [])\<close> for each call with a DNS status, and by nothing else.
\<close>

theorem set_dns_never_mutates_list:
  "lists (snd (set_dns env v r w)) = lists w
   \<and> (lists w custom_dns_ips_default = []
        \<longrightarrow> lists (set_dns_default_calls env vs w) custom_dns_ips_default = []
            \<and> calls (set_dns_default_calls env vs w)
                = calls w @ concat (map default_call_trace vs))"
  by (simp add: set_dns_lists set_dns_default_calls_lists set_dns_default_calls_trace)

theorem set_dns_never_mutates_list_witness:
  "lists free_world custom_dns_ips_default = []
   \<and> lists (snd (set_dns plain_collaborators (PyDnsStatus CUSTOM) 2 free_world)) 2
       = [''1.1.1.1'', ''8.8.8.8'']
   \<and> lists (set_dns_default_calls plain_collaborators
              [PyDnsStatus CUSTOM, PyNone, PyDnsStatus ENABLED] free_world)
        custom_dns_ips_default = []
   \<and> calls (set_dns_default_calls plain_collaborators
              [PyDnsStatus CUSTOM, PyNone, PyDnsStatus ENABLED] free_world)
       = [UPDATE_DNS CUSTOM [], UPDATE_DNS ENABLED []]"
proof -
  have l: "lists free_world custom_dns_ips_default = []"
    and l2: "lists free_world 2 = [''1.1.1.1'', ''8.8.8.8'']"
    and c: "calls free_world = []"
    by (simp_all add: free_world_def custom_dns_ips_default_def)
  show ?thesis
    using set_dns_never_mutates_list
            [of plain_collaborators "PyDnsStatus CUSTOM" 2 free_world
                "[PyDnsStatus CUSTOM, PyNone, PyDnsStatus ENABLED]"] l l2 c
    by simp
qed

section \<open>The settings dictionary\<close>

lemma upper_protocol_value:
  "upper ''tcp'' = ''TCP''"
  "upper ''udp'' = ''UDP''"
  "upper ''wireguard'' = ''WIREGUARD''"
  by code_simp+

lemma join_Cons:
  "join sep (x # xs) = x @ concat (map (\<lambda>y. sep @ y) xs)"
  by (induction xs arbitrary: x) simp_all

lemma map_of_dns_status:
  "map_of [(ENABLED, a), (CUSTOM, b)] d = Some (case d of ENABLED \<Rightarrow> a | CUSTOM \<Rightarrow> b)"
  by (cases d) simp_all

lemma map_of_netshield_status:
  "map_of [(Some MALWARE, a), (Some ADS_MALWARE, b), (Some DISABLED, c)] n
     = (case n of None \<Rightarrow> None
        | Some m \<Rightarrow> Some (case m of MALWARE \<Rightarrow> a | ADS_MALWARE \<Rightarrow> b | DISABLED \<Rightarrow> c))"
proof (cases n)
  case None
  then show ?thesis by simp
next
  case (Some m)
  then show ?thesis by (cases m) simp_all
qed

lemma transform_settings_dict:
  "transform_user_setting_to_readable_format env
     [(PROTOCOL, ProtocolValue raw_protocol),
      (KILLSWITCH, KillswitchValue raw_ks),
      (DNS, DnsStatusValue raw_dns),
      (CUSTOM_DNS, CustomDnsValue raw_custom_dns),
      (NETSHIELD, NetshieldValue raw_ns)] =
     (case (KILLSWITCH_STATUS_TEXT env raw_ks, raw_ns) of
        (Some ks_text, Some ns) \<Rightarrow>
          Inr [(PROTOCOL,
                Readable (if raw_protocol \<in> set (SUPPORTED_PROTOCOLS OPENVPN)
                          then ''OpenVPN ('' @ upper (protocol_value raw_protocol) @ '')''
                          else upper (protocol_value raw_protocol))),
               (KILLSWITCH, Readable ks_text),
               (DNS, Readable (case raw_dns of
                                 ENABLED \<Rightarrow> ''Automatic''
                               | CUSTOM \<Rightarrow> ''Custom: '' @ join '', '' raw_custom_dns)),
               (NETSHIELD, Readable (case ns of
                                       MALWARE \<Rightarrow> ''Malware''
                                     | ADS_MALWARE \<Rightarrow> ''Ads and malware''
                                     | DISABLED \<Rightarrow> ''Disabled''))]
      | _ \<Rightarrow> Inl KeyError)"
  unfolding transform_user_setting_to_readable_format_def Let_def
    map_of_dns_status map_of_netshield_status
  by (simp split: option.splits)

text \<open>
  Claim C7: for a settings dictionary whose values are members of their enumerations (and a
  kill switch mode that \<^verbatim>\<open>KILLSWITCH_STATUS_TEXT\<close> has a text for), the readable
  transformation returns exactly these strings: a protocol of the OpenVPN family is
  \<^verbatim>\<open>OpenVPN (TCP)\<close> or \<^verbatim>\<open>OpenVPN (UDP)\<close>, its value in upper case between the brackets, and
  another protocol is its own value in upper case; the DNS status \<^verbatim>\<open>ENABLED\<close> is
  \<^verbatim>\<open>Automatic\<close> and \<^verbatim>\<open>CUSTOM\<close> is \<^verbatim>\<open>Custom: \<close> followed by the servers in their order, a
  comma and a space before each but the first; NetShield is \<^verbatim>\<open>Malware\<close>,
  \<^verbatim>\<open>Ads and malware\<close> or \<^verbatim>\<open>Disabled\<close>.
\<close>

theorem readable_format_strings:
  assumes "KILLSWITCH_STATUS_TEXT env raw_ks = Some ks_text"
  shows "transform_user_setting_to_readable_format env
           [(PROTOCOL, ProtocolValue raw_protocol),
            (KILLSWITCH, KillswitchValue raw_ks),
            (DNS, DnsStatusValue raw_dns),
            (CUSTOM_DNS, CustomDnsValue raw_custom_dns),
            (NETSHIELD, NetshieldValue (Some raw_ns))]
         = Inr [(PROTOCOL, Readable (case raw_protocol of
                                       TCP \<Rightarrow> ''OpenVPN (TCP)''
                                     | UDP \<Rightarrow> ''OpenVPN (UDP)''
                                     | WIREGUARD \<Rightarrow> ''WIREGUARD'')),
                (KILLSWITCH, Readable ks_text),
                (DNS, Readable (case raw_dns of
                                  ENABLED \<Rightarrow> ''Automatic''
                                | CUSTOM \<Rightarrow>
                                    ''Custom: '' @
                                    (case raw_custom_dns of
                                       [] \<Rightarrow> []
                                     | ip # ips \<Rightarrow> ip @ concat (map (\<lambda>s. '', '' @ s) ips)))),
                (NETSHIELD, Readable (case raw_ns of
                                        MALWARE \<Rightarrow> ''Malware''
                                      | ADS_MALWARE \<Rightarrow> ''Ads and malware''
                                      | DISABLED \<Rightarrow> ''Disabled''))]"
proof -
  have j: "join '', '' raw_custom_dns
             = (case raw_custom_dns of
                  [] \<Rightarrow> []
                | ip # ips \<Rightarrow> ip @ concat (map (\<lambda>s. '', '' @ s) ips))"
    by (cases raw_custom_dns) (simp_all only: join.simps(1) join_Cons list.case)
  show ?thesis
    by (cases raw_protocol; cases raw_dns)
       (simp_all add: transform_settings_dict assms upper_protocol_value j)
qed

theorem readable_format_strings_witness:
  "KILLSWITCH_STATUS_TEXT plain_collaborators KILLSWITCH_OFF = Some ''Off''
   \<and> transform_user_setting_to_readable_format plain_collaborators
         [(PROTOCOL, ProtocolValue UDP),
          (KILLSWITCH, KillswitchValue KILLSWITCH_OFF),
          (DNS, DnsStatusValue CUSTOM),
          (CUSTOM_DNS, CustomDnsValue [''9.9.9.9'', ''1.1.1.1'']),
          (NETSHIELD, NetshieldValue (Some ADS_MALWARE))]
       = Inr [(PROTOCOL, Readable ''OpenVPN (UDP)''),
              (KILLSWITCH, Readable ''Off''),
              (DNS, Readable ''Custom: 9.9.9.9, 1.1.1.1''),
              (NETSHIELD, Readable ''Ads and malware'')]"
proof -
  have k: "KILLSWITCH_STATUS_TEXT plain_collaborators KILLSWITCH_OFF = Some ''Off''"
    by (simp add: plain_collaborators_def)
  show ?thesis
    using readable_format_strings
            [OF k, of UDP CUSTOM "[''9.9.9.9'', ''1.1.1.1'']" ADS_MALWARE] k
    by simp
qed






end
